theory Spec2Isabelle
  imports Main
begin

section \<open>The pizza catalogue API: data model\<close>

text \<open>
  The request handlers of \<^verbatim>\<open>src/main.py\<close> are embedded one HOL function per Python
  function, under the Python name. A handler that raises returns \<open>Inl\<close> of the error;
  a handler that writes to the store takes the store and returns the new one.
\<close>

subsection \<open>Errors\<close>

text \<open>
  \<open>HTTPException\<close> is the exception the handlers raise, with its status code and detail
  string. \<open>Unauthorized\<close> is the failure of identity resolution, which the handlers never
  raise themselves. \<open>AttributeError\<close> is Python's error for reading a field of \<open>None\<close>.
\<close>

datatype error =
    HTTPException (status_code: int) (detail: string)
  | Unauthorized
  | AttributeError

subsection \<open>Entities and the store\<close>

text \<open>
  The rows of the four tables. Python integers are unbounded, so ids and prices are
  \<open>int\<close>. The permission level of a user is left out: no handler reads it (the only
  use, in \<open>show_pizzas\<close>, is commented out in the source).
\<close>

record user =
  u_username :: string
  u_email :: string
  u_password :: string

record pizza =
  p_id :: int
  p_name :: string
  p_price :: int
  p_is_active :: bool
  p_ingredient_number :: int

record ingredient =
  i_id :: int
  i_name :: string
  i_category :: string

record association =
  a_pizza_id :: int
  a_ingredient_id :: int

record db =
  users :: "user list"
  pizzas :: "pizza list"
  ingredients :: "ingredient list"
  associations :: "association list"

subsection \<open>Request and response schemas\<close>

record user_create =
  uc_username :: string
  uc_email :: string
  uc_password :: string

record user_out =
  uo_username :: string
  uo_email :: string

record form_data =
  fd_username :: string
  fd_password :: string

record 'tok token_schema =
  access_token :: 'tok
  refresh_token :: 'tok

record pizza_create =
  pc_name :: string
  pc_price :: int
  pc_is_active :: bool

record pizza_list =
  pl_id :: int
  pl_name :: string
  pl_price :: int
  pl_is_active :: bool
  pl_ingredient_number :: int

record pizza_details =
  pd_id :: int
  pd_name :: string
  pd_price :: int
  pd_is_active :: bool
  pd_ingredients :: "association list"

record ingredient_base =
  ib_name :: string
  ib_category :: string

record message =
  m_status :: string
  m_detail :: string

subsection \<open>The credential service and the token decoder\<close>

text \<open>
  \<^verbatim>\<open>utils.py\<close> and the token decoding of \<^verbatim>\<open>deps.py\<close> are not among the sources.
  Their functions are parameters of the model, so every theorem below holds for any
  hash, any password check and any token format. \<open>decode_token\<close> stands for the
  signature check of a presented token: \<open>None\<close> for a token that is not validly
  signed, otherwise the subject and the expiry time it carries.
\<close>

record token_payload =
  tp_sub :: string
  tp_exp :: nat

record 'tok utils =
  get_hashed_password :: "string \<Rightarrow> string"
  verify_password :: "string \<Rightarrow> string \<Rightarrow> bool"
  create_access_token :: "string \<Rightarrow> 'tok"
  create_refresh_token :: "string \<Rightarrow> 'tok"
  decode_token :: "'tok \<Rightarrow> token_payload option"
  now :: nat

section \<open>The entity store access layer\<close>

text \<open>
  Modelled from the spec: the module \<^verbatim>\<open>CRUD.py\<close> is not among the sources. Each
  function below follows section 4.3 of the specification (get by key, create, partial
  update, conditional delete) over the four tables. A row is deleted by its key, as a
  relational store does.
\<close>

definition get_user_by_username :: "db \<Rightarrow> string \<Rightarrow> user option" where
  "get_user_by_username d name = find (\<lambda>u. u_username u = name) (users d)"

definition get_user_by_email :: "db \<Rightarrow> string \<Rightarrow> user option" where
  "get_user_by_email d mail = find (\<lambda>u. u_email u = mail) (users d)"

text \<open>
  Modelled from the spec: creation builds the user from the signup data and stores the
  hash of its password. The argument is optional because the caller in \<^verbatim>\<open>main.py\<close>
  passes \<open>None\<close>; reading a field of \<open>None\<close> raises \<open>AttributeError\<close>.
\<close>

definition CRUD_create_user ::
  "'tok utils \<Rightarrow> db \<Rightarrow> user_create option \<Rightarrow> (error + user) \<times> db" where
  "CRUD_create_user ut d data =
     (case data of
        None \<Rightarrow> (Inl AttributeError, d)
      | Some c \<Rightarrow>
          (let u = \<lparr>u_username = uc_username c, u_email = uc_email c,
                    u_password = get_hashed_password ut (uc_password c)\<rparr>
           in (Inr u, d\<lparr>users := users d @ [u]\<rparr>)))"

definition get_pizza_list :: "db \<Rightarrow> bool \<Rightarrow> pizza list" where
  "get_pizza_list d get_all = (if get_all then pizzas d else filter p_is_active (pizzas d))"

definition get_pizza :: "db \<Rightarrow> int \<Rightarrow> pizza option" where
  "get_pizza d pizza_id = find (\<lambda>p. p_id p = pizza_id) (pizzas d)"

definition next_id :: "int list \<Rightarrow> int" where
  "next_id ids = fold max ids 0 + 1"

definition CRUD_create_pizza :: "db \<Rightarrow> pizza_create \<Rightarrow> pizza \<times> db" where
  "CRUD_create_pizza d c =
     (let p = \<lparr>p_id = next_id (map p_id (pizzas d)), p_name = pc_name c,
               p_price = pc_price c, p_is_active = pc_is_active c,
               p_ingredient_number = 0\<rparr>
      in (p, d\<lparr>pizzas := pizzas d @ [p]\<rparr>))"

definition CRUD_change_pizza ::
  "db \<Rightarrow> pizza \<Rightarrow> string option \<Rightarrow> int option \<Rightarrow> bool option \<Rightarrow> pizza \<times> db" where
  "CRUD_change_pizza d p name price is_active =
     (let p' = p\<lparr>p_name := (case name of None \<Rightarrow> p_name p | Some n \<Rightarrow> n),
                 p_price := (case price of None \<Rightarrow> p_price p | Some c \<Rightarrow> c),
                 p_is_active := (case is_active of None \<Rightarrow> p_is_active p | Some b \<Rightarrow> b)\<rparr>
      in (p', d\<lparr>pizzas := map (\<lambda>q. if p_id q = p_id p then p' else q) (pizzas d)\<rparr>))"

definition get_ingredient :: "db \<Rightarrow> int \<Rightarrow> ingredient option" where
  "get_ingredient d ingredient_id = find (\<lambda>i. i_id i = ingredient_id) (ingredients d)"

definition CRUD_create_ingredient :: "db \<Rightarrow> ingredient_base \<Rightarrow> ingredient \<times> db" where
  "CRUD_create_ingredient d c =
     (let i = \<lparr>i_id = next_id (map i_id (ingredients d)), i_name = ib_name c,
               i_category = ib_category c\<rparr>
      in (i, d\<lparr>ingredients := ingredients d @ [i]\<rparr>))"

definition CRUD_change_ingredient ::
  "db \<Rightarrow> ingredient \<Rightarrow> string option \<Rightarrow> string option \<Rightarrow> ingredient \<times> db" where
  "CRUD_change_ingredient d i name category =
     (let i' = i\<lparr>i_name := (case name of None \<Rightarrow> i_name i | Some n \<Rightarrow> n),
                 i_category := (case category of None \<Rightarrow> i_category i | Some c \<Rightarrow> c)\<rparr>
      in (i', d\<lparr>ingredients := map (\<lambda>j. if i_id j = i_id i then i' else j) (ingredients d)\<rparr>))"

text \<open>
  Modelled from the spec: the store reports failure, and deletes nothing, while any
  association row references the ingredient.
\<close>

definition CRUD_delete_ingredient :: "db \<Rightarrow> ingredient \<Rightarrow> bool \<times> db" where
  "CRUD_delete_ingredient d i =
     (if list_ex (\<lambda>a. a_ingredient_id a = i_id i) (associations d) then (False, d)
      else (True, d\<lparr>ingredients := filter (\<lambda>j. i_id j \<noteq> i_id i) (ingredients d)\<rparr>))"

definition get_pizza_ing_association :: "db \<Rightarrow> int \<Rightarrow> int \<Rightarrow> association option" where
  "get_pizza_ing_association d pizza_id ingredient_id =
     find (\<lambda>a. a_pizza_id a = pizza_id \<and> a_ingredient_id a = ingredient_id) (associations d)"

definition add_pizza_ing_association :: "db \<Rightarrow> int \<Rightarrow> int \<Rightarrow> association \<times> db" where
  "add_pizza_ing_association d pizza_id ingredient_id =
     (let a = \<lparr>a_pizza_id = pizza_id, a_ingredient_id = ingredient_id\<rparr>
      in (a, d\<lparr>associations := associations d @ [a]\<rparr>))"

definition delete_pizza_ing_association :: "db \<Rightarrow> association \<Rightarrow> db" where
  "delete_pizza_ing_association d a =
     d\<lparr>associations :=
         filter (\<lambda>b. \<not> (a_pizza_id b = a_pizza_id a \<and> a_ingredient_id b = a_ingredient_id a))
           (associations d)\<rparr>"

text \<open>
  Modelled from the spec: \<open>pizza.ingredients\<close> is the relationship of the absent
  \<^verbatim>\<open>models.py\<close>, the association rows that reference the pizza, read from the store
  when the attribute is read.
\<close>

definition pizza_ingredients :: "db \<Rightarrow> pizza \<Rightarrow> association list" where
  "pizza_ingredients d p = filter (\<lambda>a. a_pizza_id a = p_id p) (associations d)"

section \<open>Python's string conversion of integers\<close>

text \<open>
  The confirmation messages are f-strings that print ids: \<open>str_int\<close> is Python's
  \<open>str\<close> on an integer, decimal digits with a minus sign for a negative number.
\<close>

definition digit_char :: "nat \<Rightarrow> char" where
  "digit_char n = ''0123456789'' ! n"

fun str_nat :: "nat \<Rightarrow> string" where
  "str_nat n = (if n < 10 then [digit_char n] else str_nat (n div 10) @ [digit_char (n mod 10)])"

declare str_nat.simps [simp del]

definition str_int :: "int \<Rightarrow> string" where
  "str_int i = (if i < 0 then CHR ''-'' # str_nat (nat (- i)) else str_nat (nat i))"

section \<open>The request handlers of main.py\<close>

text \<open>
  Each handler has the name and the parameters of the Python function, in the source's
  order. The parameter \<open>user\<close> is the value the framework injects from
  \<open>Depends(get_current_user)\<close>; a handler without it is called with no identity
  resolution at all. Where a handler and the store function it calls share a name, the
  store function is prefixed \<open>CRUD_\<close>.
\<close>

definition home :: "string \<times> string" where
  "home = (''Welcome'', ''to the pizza app'')"

text \<open>
  In the branch \<open>user is None\<close> the source calls \<open>CRUD.create_user(db, user)\<close>: the
  argument is the result of the lookup, which is \<open>None\<close> there, and not \<open>data\<close>.
\<close>

definition create_user :: "'tok utils \<Rightarrow> user_create \<Rightarrow> db \<Rightarrow> (error + user) \<times> db" where
  "create_user ut data d =
     (let user = get_user_by_username d (uc_username data)
      in case user of
           None \<Rightarrow> CRUD_create_user ut d None
         | Some _ \<Rightarrow> (Inl (HTTPException 400 ''The username already exists''), d))"

definition login :: "'tok utils \<Rightarrow> form_data \<Rightarrow> db \<Rightarrow> error + 'tok token_schema" where
  "login ut form d =
     (case get_user_by_username d (fd_username form) of
        None \<Rightarrow> Inl (HTTPException 400 ''Incorrect username or password'')
      | Some user \<Rightarrow>
          (let hashed_password = u_password user
           in if verify_password ut (fd_password form) hashed_password
              then Inr \<lparr>access_token = create_access_token ut (u_email user),
                        refresh_token = create_refresh_token ut (u_email user)\<rparr>
              else Inl (HTTPException 400 ''Incorrect username or password'')))"

definition show_pizzas :: "db \<Rightarrow> user \<Rightarrow> pizza list" where
  "show_pizzas d user =
     (let get_all = True;
          pizza_list = get_pizza_list d get_all
      in map (\<lambda>pizza. pizza\<lparr>p_ingredient_number := int (length (pizza_ingredients d pizza))\<rparr>)
           pizza_list)"

definition show_pizza_details :: "int \<Rightarrow> db \<Rightarrow> error + pizza" where
  "show_pizza_details pizza_id d =
     (case get_pizza d pizza_id of
        None \<Rightarrow> Inl (HTTPException 404 ''Pizza not found'')
      | Some pizza_detail \<Rightarrow> Inr pizza_detail)"

definition create_pizza :: "pizza_create \<Rightarrow> db \<Rightarrow> user \<Rightarrow> pizza \<times> db" where
  "create_pizza new_pizza d user = CRUD_create_pizza d new_pizza"

definition change_pizza ::
  "int \<Rightarrow> string option \<Rightarrow> int option \<Rightarrow> bool option \<Rightarrow> db \<Rightarrow> user \<Rightarrow> (error + pizza) \<times> db" where
  "change_pizza pizza_id name price is_active d user =
     (case get_pizza d pizza_id of
        None \<Rightarrow> (Inl (HTTPException 404 ''Pizza not found.''), d)
      | Some pizza_detail \<Rightarrow>
          (case CRUD_change_pizza d pizza_detail name price is_active of
             (pizza_detail', d') \<Rightarrow> (Inr pizza_detail', d')))"

definition create_ingredient :: "ingredient_base \<Rightarrow> db \<Rightarrow> user \<Rightarrow> ingredient \<times> db" where
  "create_ingredient new_ingredient d user = CRUD_create_ingredient d new_ingredient"

definition change_ingredient ::
  "int \<Rightarrow> string option \<Rightarrow> string option \<Rightarrow> db \<Rightarrow> user \<Rightarrow> (error + ingredient) \<times> db" where
  "change_ingredient ingredient_id name category d user =
     (case get_ingredient d ingredient_id of
        None \<Rightarrow> (Inl (HTTPException 404 ''Ingredient not found.''), d)
      | Some ingredient \<Rightarrow>
          (case CRUD_change_ingredient d ingredient name category of
             (ingredient', d') \<Rightarrow> (Inr ingredient', d')))"

definition delete_ingredient :: "int \<Rightarrow> db \<Rightarrow> user \<Rightarrow> (error + message) \<times> db" where
  "delete_ingredient ingredient_id d user =
     (case get_ingredient d ingredient_id of
        None \<Rightarrow> (Inl (HTTPException 404 ''Ingredient not found.''), d)
      | Some ingredient \<Rightarrow>
          (case CRUD_delete_ingredient d ingredient of
             (deleted, d') \<Rightarrow>
               if deleted
               then (Inr \<lparr>m_status = ''completed'',
                          m_detail = ''Ingredient '' @ i_name ingredient @ '' with id ''
                                     @ str_int (i_id ingredient) @ '' deleted''\<rparr>, d')
               else (Inl (HTTPException 400 ''Cannot delete an ingredient in an active pizza''),
                     d')))"

definition add_ingredient_to_pizza ::
  "int \<Rightarrow> int \<Rightarrow> db \<Rightarrow> user \<Rightarrow> (error + association) \<times> db" where
  "add_ingredient_to_pizza pizza_id ingredient_id d user =
     (if get_pizza d pizza_id = None then (Inl (HTTPException 404 ''Pizza not found''), d)
      else if get_ingredient d ingredient_id = None
      then (Inl (HTTPException 404 ''Ingredient not found''), d)
      else (case get_pizza_ing_association d pizza_id ingredient_id of
              Some association \<Rightarrow> (Inl (HTTPException 400 ''Association already exists''), d)
            | None \<Rightarrow>
                (case add_pizza_ing_association d pizza_id ingredient_id of
                   (new_association, d') \<Rightarrow> (Inr new_association, d'))))"

definition remove_ingredient_to_pizza ::
  "int \<Rightarrow> int \<Rightarrow> db \<Rightarrow> user \<Rightarrow> (error + message) \<times> db" where
  "remove_ingredient_to_pizza pizza_id ingredient_id d user =
     (case get_pizza_ing_association d pizza_id ingredient_id of
        None \<Rightarrow> (Inl (HTTPException 404 ''Association not found''), d)
      | Some association \<Rightarrow>
          (Inr \<lparr>m_status = ''completed'',
                m_detail = ''Ingredient '' @ str_int (a_ingredient_id association)
                           @ ''removed from pizza '' @ str_int (a_pizza_id association)\<rparr>,
           delete_pizza_ing_association d association))"

section \<open>Identity resolution and the routes\<close>

text \<open>
  Modelled from the spec: \<open>get_current_user\<close> of the absent \<^verbatim>\<open>deps.py\<close>, after
  section 4.2: it validates the signature and the expiry of the presented token,
  extracts the subject and looks the user up, and fails with \<open>Unauthorized\<close> when the
  token is invalid or expired or the subject is unknown. A request that presents no
  token at all has no valid token. The subject is looked up by email, the identity
  \<open>login\<close> issues tokens for.
\<close>

definition get_current_user :: "'tok utils \<Rightarrow> db \<Rightarrow> 'tok option \<Rightarrow> error + user" where
  "get_current_user ut d token =
     (case token of
        None \<Rightarrow> Inl Unauthorized
      | Some t \<Rightarrow>
          (case decode_token ut t of
             None \<Rightarrow> Inl Unauthorized
           | Some payload \<Rightarrow>
               if tp_exp payload < now ut then Inl Unauthorized
               else (case get_user_by_email d (tp_sub payload) of
                       None \<Rightarrow> Inl Unauthorized
                     | Some u \<Rightarrow> Inr u)))"

text \<open>
  Modelled from the spec: the response models of the absent \<^verbatim>\<open>schemas.py\<close>, after
  section 6: a user is returned without its password, a listed pizza with its id, name,
  price, active flag and ingredient count, a pizza detail with its ingredient list.
\<close>

definition to_user_out :: "user \<Rightarrow> user_out" where
  "to_user_out u = \<lparr>uo_username = u_username u, uo_email = u_email u\<rparr>"

definition to_pizza_list :: "pizza \<Rightarrow> pizza_list" where
  "to_pizza_list p =
     \<lparr>pl_id = p_id p, pl_name = p_name p, pl_price = p_price p,
      pl_is_active = p_is_active p, pl_ingredient_number = p_ingredient_number p\<rparr>"

definition to_pizza_details :: "db \<Rightarrow> pizza \<Rightarrow> pizza_details" where
  "to_pizza_details d p =
     \<lparr>pd_id = p_id p, pd_name = p_name p, pd_price = p_price p,
      pd_is_active = p_is_active p, pd_ingredients = pizza_ingredients d p\<rparr>"

definition to_ingredient_base :: "ingredient \<Rightarrow> ingredient_base" where
  "to_ingredient_base i = \<lparr>ib_name = i_name i, ib_category = i_category i\<rparr>"

datatype operation =
    Home
  | Signup user_create
  | Login form_data
  | ListPizzas
  | GetPizza int
  | CreatePizza pizza_create
  | PatchPizza int "string option" "int option" "bool option"
  | CreateIngredient ingredient_base
  | PatchIngredient int "string option" "string option"
  | DeleteIngredient int
  | AddAssociation int int
  | RemoveAssociation int int

datatype 'tok response =
    WelcomeOut "string \<times> string"
  | UserOut user_out
  | TokenOut "'tok token_schema"
  | PizzaListOut "pizza_list list"
  | PizzaDetailsOut pizza_details
  | PizzaOut pizza
  | IngredientOut ingredient
  | IngredientBaseOut ingredient_base
  | MessageOut message
  | AssociationOut association

text \<open>
  The routing table of \<^verbatim>\<open>main.py\<close>: one equation per decorated function. A request is
  the token it presents, if any, and the operation. A route whose Python function has
  the parameter \<open>user = Depends(get_current_user)\<close> resolves the identity before the
  handler runs, and the error of the resolution is the response; a route without that
  parameter never looks at the token.
\<close>

fun app :: "'tok utils \<Rightarrow> 'tok option \<Rightarrow> operation \<Rightarrow> db \<Rightarrow> (error + 'tok response) \<times> db" where
  "app ut token Home d = (Inr (WelcomeOut home), d)"
| "app ut token (Signup data) d =
     (case create_user ut data d of
        (Inl e, d') \<Rightarrow> (Inl e, d')
      | (Inr u, d') \<Rightarrow> (Inr (UserOut (to_user_out u)), d'))"
| "app ut token (Login form) d =
     (case login ut form d of
        Inl e \<Rightarrow> (Inl e, d)
      | Inr t \<Rightarrow> (Inr (TokenOut t), d))"
| "app ut token ListPizzas d =
     (case get_current_user ut d token of
        Inl e \<Rightarrow> (Inl e, d)
      | Inr user \<Rightarrow> (Inr (PizzaListOut (map to_pizza_list (show_pizzas d user))), d))"
| "app ut token (GetPizza pizza_id) d =
     (case show_pizza_details pizza_id d of
        Inl e \<Rightarrow> (Inl e, d)
      | Inr p \<Rightarrow> (Inr (PizzaDetailsOut (to_pizza_details d p)), d))"
| "app ut token (CreatePizza new_pizza) d =
     (case get_current_user ut d token of
        Inl e \<Rightarrow> (Inl e, d)
      | Inr user \<Rightarrow>
          (case create_pizza new_pizza d user of (p, d') \<Rightarrow> (Inr (PizzaOut p), d')))"
| "app ut token (PatchPizza pizza_id name price is_active) d =
     (case get_current_user ut d token of
        Inl e \<Rightarrow> (Inl e, d)
      | Inr user \<Rightarrow>
          (case change_pizza pizza_id name price is_active d user of
             (Inl e, d') \<Rightarrow> (Inl e, d')
           | (Inr p, d') \<Rightarrow> (Inr (PizzaDetailsOut (to_pizza_details d' p)), d')))"
| "app ut token (CreateIngredient new_ingredient) d =
     (case get_current_user ut d token of
        Inl e \<Rightarrow> (Inl e, d)
      | Inr user \<Rightarrow>
          (case create_ingredient new_ingredient d user of
             (i, d') \<Rightarrow> (Inr (IngredientOut i), d')))"
| "app ut token (PatchIngredient ingredient_id name category) d =
     (case get_current_user ut d token of
        Inl e \<Rightarrow> (Inl e, d)
      | Inr user \<Rightarrow>
          (case change_ingredient ingredient_id name category d user of
             (Inl e, d') \<Rightarrow> (Inl e, d')
           | (Inr i, d') \<Rightarrow> (Inr (IngredientBaseOut (to_ingredient_base i)), d')))"
| "app ut token (DeleteIngredient ingredient_id) d =
     (case get_current_user ut d token of
        Inl e \<Rightarrow> (Inl e, d)
      | Inr user \<Rightarrow>
          (case delete_ingredient ingredient_id d user of
             (Inl e, d') \<Rightarrow> (Inl e, d')
           | (Inr m, d') \<Rightarrow> (Inr (MessageOut m), d')))"
| "app ut token (AddAssociation pizza_id ingredient_id) d =
     (case get_current_user ut d token of
        Inl e \<Rightarrow> (Inl e, d)
      | Inr user \<Rightarrow>
          (case add_ingredient_to_pizza pizza_id ingredient_id d user of
             (Inl e, d') \<Rightarrow> (Inl e, d')
           | (Inr a, d') \<Rightarrow> (Inr (AssociationOut a), d')))"
| "app ut token (RemoveAssociation pizza_id ingredient_id) d =
     (case get_current_user ut d token of
        Inl e \<Rightarrow> (Inl e, d)
      | Inr user \<Rightarrow>
          (case remove_ingredient_to_pizza pizza_id ingredient_id d user of
             (Inl e, d') \<Rightarrow> (Inl e, d')
           | (Inr m, d') \<Rightarrow> (Inr (MessageOut m), d')))"

section \<open>A sample store\<close>

text \<open>
  A concrete credential service and a concrete store, on which the theorems below are
  instantiated. The sample decoder accepts three tokens: a current one for the
  registered user, an expired one for the same user, and a current one for a subject
  that is not registered.
\<close>

definition example_utils :: "string utils" where
  "example_utils =
     \<lparr>get_hashed_password = (\<lambda>p. ''hash:'' @ p),
      verify_password = (\<lambda>p h. h = ''hash:'' @ p),
      create_access_token = (\<lambda>s. ''access:'' @ s),
      create_refresh_token = (\<lambda>s. ''refresh:'' @ s),
      decode_token = (\<lambda>t. if t = ''access:alice@example.com''
                             then Some \<lparr>tp_sub = ''alice@example.com'', tp_exp = 100\<rparr>
                           else if t = ''stale:alice@example.com''
                             then Some \<lparr>tp_sub = ''alice@example.com'', tp_exp = 10\<rparr>
                           else if t = ''access:bob@example.com''
                             then Some \<lparr>tp_sub = ''bob@example.com'', tp_exp = 100\<rparr>
                           else None),
      now = 50\<rparr>"

definition alice :: user where
  "alice = \<lparr>u_username = ''alice'', u_email = ''alice@example.com'', u_password = ''hash:secret''\<rparr>"

definition example_db :: db where
  "example_db =
     \<lparr>users = [alice],
      pizzas = [\<lparr>p_id = 1, p_name = ''Margherita'', p_price = 900, p_is_active = True,
                 p_ingredient_number = 7\<rparr>,
                \<lparr>p_id = 2, p_name = ''Marinara'', p_price = 800, p_is_active = False,
                 p_ingredient_number = 0\<rparr>],
      ingredients = [\<lparr>i_id = 1, i_name = ''Tomato'', i_category = ''Sauce''\<rparr>,
                     \<lparr>i_id = 2, i_name = ''Basil'', i_category = ''Herb''\<rparr>,
                     \<lparr>i_id = 3, i_name = ''Garlic'', i_category = ''Herb''\<rparr>],
      associations = [\<lparr>a_pizza_id = 1, a_ingredient_id = 1\<rparr>,
                      \<lparr>a_pizza_id = 1, a_ingredient_id = 2\<rparr>,
                      \<lparr>a_pizza_id = 2, a_ingredient_id = 1\<rparr>]\<rparr>"

section \<open>Signup and login\<close>

lemma create_user_fresh:
  "get_user_by_username d (uc_username data) = None \<Longrightarrow>
     create_user ut data d = CRUD_create_user ut d None"
  by (simp add: create_user_def)

lemma create_user_taken:
  "get_user_by_username d (uc_username data) = Some u \<Longrightarrow>
     create_user ut data d = (Inl (HTTPException 400 ''The username already exists''), d)"
  by (simp add: create_user_def)

lemma create_user_store: "snd (create_user ut data d) = d"
  by (simp add: create_user_def CRUD_create_user_def split: option.splits)

text \<open>
  Claim C1. Signup with a username that is not registered should return the user
  created from the submitted data. The handler hands the store the result of the
  lookup, which is \<open>None\<close>, in place of the submitted data: signing up the unregistered
  username \<open>bob\<close> on the sample store ends in an \<open>AttributeError\<close> and creates no user.
\<close>

theorem signup_fresh_username_fails:
  "create_user example_utils
     \<lparr>uc_username = ''bob'', uc_email = ''bob@example.com'', uc_password = ''hunter2''\<rparr>
     example_db = (Inl AttributeError, example_db)"
  by (simp add: create_user_def get_user_by_username_def CRUD_create_user_def example_db_def
      alice_def)

text \<open>
  Claim C6. Every failing login, whether the username is absent or the password does
  not match the stored hash, raises the same error with the same message: nothing in the
  response tells which check failed.
\<close>

theorem login_failure_generic:
  "(get_user_by_username d (fd_username form) = None
      \<longrightarrow> login ut form d = Inl (HTTPException 400 ''Incorrect username or password''))
   \<and> (\<forall>user. get_user_by_username d (fd_username form) = Some user
         \<and> \<not> verify_password ut (fd_password form) (u_password user)
      \<longrightarrow> login ut form d = Inl (HTTPException 400 ''Incorrect username or password''))
   \<and> (\<forall>e. login ut form d = Inl e
      \<longrightarrow> e = HTTPException 400 ''Incorrect username or password'')"
  by (auto simp: login_def Let_def split: option.splits if_splits)

theorem login_failure_generic_witness:
  "login example_utils \<lparr>fd_username = ''mallory'', fd_password = ''secret''\<rparr> example_db
     = Inl (HTTPException 400 ''Incorrect username or password'')
   \<and> login example_utils \<lparr>fd_username = ''alice'', fd_password = ''guess''\<rparr> example_db
     = Inl (HTTPException 400 ''Incorrect username or password'')"
proof -
  have absent: "get_user_by_username example_db
                  (fd_username \<lparr>fd_username = ''mallory'', fd_password = ''secret''\<rparr>) = None"
    by (simp add: get_user_by_username_def example_db_def alice_def)
  have present: "get_user_by_username example_db
                   (fd_username \<lparr>fd_username = ''alice'', fd_password = ''guess''\<rparr>) = Some alice"
    by (simp add: get_user_by_username_def example_db_def alice_def)
  have wrong: "\<not> verify_password example_utils
                   (fd_password \<lparr>fd_username = ''alice'', fd_password = ''guess''\<rparr>)
                   (u_password alice)"
    by (simp add: example_utils_def alice_def)
  from login_failure_generic
         [of example_db "\<lparr>fd_username = ''mallory'', fd_password = ''secret''\<rparr>" example_utils]
       absent
  have a: "login example_utils \<lparr>fd_username = ''mallory'', fd_password = ''secret''\<rparr> example_db
             = Inl (HTTPException 400 ''Incorrect username or password'')"
    by blast
  from login_failure_generic
         [of example_db "\<lparr>fd_username = ''alice'', fd_password = ''guess''\<rparr>" example_utils]
       present wrong
  have b: "login example_utils \<lparr>fd_username = ''alice'', fd_password = ''guess''\<rparr> example_db
             = Inl (HTTPException 400 ''Incorrect username or password'')"
    by blast
  from a b show ?thesis by simp
qed

text \<open>
  Claim C9. When the username is registered and the submitted password matches the
  stored hash, login returns an access token and a refresh token, both issued for the
  email of that user.
\<close>

theorem login_success_tokens:
  assumes "get_user_by_username d (fd_username form) = Some user"
    and "verify_password ut (fd_password form) (u_password user)"
  shows "login ut form d =
           Inr \<lparr>access_token = create_access_token ut (u_email user),
                refresh_token = create_refresh_token ut (u_email user)\<rparr>
         \<and> app ut token (Login form) d =
             (Inr (TokenOut \<lparr>access_token = create_access_token ut (u_email user),
                             refresh_token = create_refresh_token ut (u_email user)\<rparr>), d)"
  using assms by (simp add: login_def)

theorem login_success_tokens_witness:
  "login example_utils \<lparr>fd_username = ''alice'', fd_password = ''secret''\<rparr> example_db =
     Inr \<lparr>access_token = ''access:alice@example.com'',
          refresh_token = ''refresh:alice@example.com''\<rparr>"
proof -
  have present: "get_user_by_username example_db
                   (fd_username \<lparr>fd_username = ''alice'', fd_password = ''secret''\<rparr>) = Some alice"
    by (simp add: get_user_by_username_def example_db_def alice_def)
  have right: "verify_password example_utils
                 (fd_password \<lparr>fd_username = ''alice'', fd_password = ''secret''\<rparr>)
                 (u_password alice)"
    by (simp add: example_utils_def alice_def)
  from login_success_tokens [OF present right, of None]
  show ?thesis by (simp add: example_utils_def alice_def)
qed

section \<open>Lookups in a table\<close>

lemma find_SomeD: "find P xs = Some x \<Longrightarrow> P x \<and> x \<in> set xs"
  by (induction xs) (auto split: if_splits)

lemma find_None_conv: "(find P xs = None) = (\<not> (\<exists>x\<in>set xs. P x))"
  by (induction xs) auto

lemma find_Some_ex: "(\<exists>x\<in>set xs. P x) \<Longrightarrow> \<exists>x. find P xs = Some x"
  by (cases "find P xs") (auto simp: find_None_conv)

section \<open>Identity resolution\<close>

lemma get_current_user_rejects:
  assumes "token = None
           \<or> (\<exists>t. token = Some t
                \<and> (decode_token ut t = None
                   \<or> (\<exists>payload. decode_token ut t = Some payload
                        \<and> (tp_exp payload < now ut
                           \<or> get_user_by_email d (tp_sub payload) = None))))"
  shows "get_current_user ut d token = Inl Unauthorized"
  using assms by (auto simp: get_current_user_def split: option.splits)


lemma current_user_alice:
  "get_current_user example_utils example_db (Some ''access:alice@example.com'') = Inr alice"
  by (simp add: get_current_user_def example_utils_def get_user_by_email_def example_db_def
      alice_def)

text \<open>
  Claim C7. The pizza list and every mutating route (create and patch pizza; create,
  patch and delete ingredient; add and remove association) resolve the identity first:
  when no token is presented, or the presented token is not validly signed, or it is
  expired, or its subject is not a registered user, the response is \<open>Unauthorized\<close>
  and the store is unchanged.
\<close>

theorem guarded_routes_unauthorized:
  assumes "token = None
           \<or> (\<exists>t. token = Some t
                \<and> (decode_token ut t = None
                   \<or> (\<exists>payload. decode_token ut t = Some payload
                        \<and> (tp_exp payload < now ut
                           \<or> get_user_by_email d (tp_sub payload) = None))))"
  shows "app ut token ListPizzas d = (Inl Unauthorized, d)
       \<and> app ut token (CreatePizza new_pizza) d = (Inl Unauthorized, d)
       \<and> app ut token (PatchPizza pizza_id pname price is_active) d = (Inl Unauthorized, d)
       \<and> app ut token (CreateIngredient new_ingredient) d = (Inl Unauthorized, d)
       \<and> app ut token (PatchIngredient ingredient_id iname category) d = (Inl Unauthorized, d)
       \<and> app ut token (DeleteIngredient ingredient_id) d = (Inl Unauthorized, d)
       \<and> app ut token (AddAssociation pizza_id ingredient_id) d = (Inl Unauthorized, d)
       \<and> app ut token (RemoveAssociation pizza_id ingredient_id) d = (Inl Unauthorized, d)"
proof -
  have "get_current_user ut d token = Inl Unauthorized"
    using assms by (rule get_current_user_rejects)
  then show ?thesis by simp
qed

theorem guarded_routes_unauthorized_witness:
  "app example_utils None ListPizzas example_db = (Inl Unauthorized, example_db)
   \<and> app example_utils (Some ''garbage'') (DeleteIngredient 3) example_db
       = (Inl Unauthorized, example_db)
   \<and> app example_utils (Some ''stale:alice@example.com'') (AddAssociation 2 2) example_db
       = (Inl Unauthorized, example_db)
   \<and> app example_utils (Some ''access:bob@example.com'')
         (PatchPizza 1 None (Some 950) None) example_db
       = (Inl Unauthorized, example_db)"
proof -
  have invalid: "decode_token example_utils ''garbage'' = None"
    by (simp add: example_utils_def)
  have expired: "decode_token example_utils ''stale:alice@example.com''
                   = Some \<lparr>tp_sub = ''alice@example.com'', tp_exp = 10\<rparr>
                 \<and> tp_exp \<lparr>tp_sub = ''alice@example.com'', tp_exp = 10\<rparr> < now example_utils"
    by (simp add: example_utils_def)
  have unknown: "decode_token example_utils ''access:bob@example.com''
                   = Some \<lparr>tp_sub = ''bob@example.com'', tp_exp = 100\<rparr>
                 \<and> get_user_by_email example_db
                       (tp_sub \<lparr>tp_sub = ''bob@example.com'', tp_exp = 100\<rparr>) = None"
    by (simp add: example_utils_def get_user_by_email_def example_db_def alice_def)
  have a: "app example_utils None ListPizzas example_db = (Inl Unauthorized, example_db)"
    using guarded_routes_unauthorized [of None example_utils example_db] by simp
  have b: "app example_utils (Some ''garbage'') (DeleteIngredient 3) example_db
             = (Inl Unauthorized, example_db)"
    using guarded_routes_unauthorized [of "Some ''garbage''" example_utils example_db] invalid
    by blast
  have c: "app example_utils (Some ''stale:alice@example.com'') (AddAssociation 2 2) example_db
             = (Inl Unauthorized, example_db)"
    using guarded_routes_unauthorized
            [of "Some ''stale:alice@example.com''" example_utils example_db] expired
    by blast
  have d: "app example_utils (Some ''access:bob@example.com'')
             (PatchPizza 1 None (Some 950) None) example_db = (Inl Unauthorized, example_db)"
    using guarded_routes_unauthorized
            [of "Some ''access:bob@example.com''" example_utils example_db] unknown
    by blast
  from a b c d show ?thesis by simp
qed

section \<open>Reading pizzas\<close>

text \<open>
  Claim C4. For every pizza in the response of the pizza list, the ingredient number is
  the number of association rows of the store that reference the pizza. It is computed
  at each read: the response is the same whatever number is stored in the pizza rows.
\<close>

theorem show_pizzas_ingredient_number:
  "(\<forall>p\<in>set (show_pizzas d user).
       p_ingredient_number p
         = int (length (filter (\<lambda>a. a_pizza_id a = p_id p) (associations d))))
   \<and> map p_id (show_pizzas d user) = map p_id (pizzas d)
   \<and> show_pizzas (d\<lparr>pizzas := map (\<lambda>p. p\<lparr>p_ingredient_number := stored p\<rparr>) (pizzas d)\<rparr>) user
       = show_pizzas d user
   \<and> (get_current_user ut d token = Inr user \<longrightarrow>
        (\<exists>l. app ut token ListPizzas d = (Inr (PizzaListOut l), d)
           \<and> map pl_id l = map p_id (pizzas d)
           \<and> (\<forall>pl\<in>set l.
                 pl_ingredient_number pl
                   = int (length (filter (\<lambda>a. a_pizza_id a = pl_id pl) (associations d))))))"
  by (auto simp: show_pizzas_def get_pizza_list_def pizza_ingredients_def to_pizza_list_def
      comp_def)

theorem show_pizzas_ingredient_number_witness:
  "app example_utils (Some ''access:alice@example.com'') ListPizzas example_db
     = (Inr (PizzaListOut
          [\<lparr>pl_id = 1, pl_name = ''Margherita'', pl_price = 900, pl_is_active = True,
            pl_ingredient_number = 2\<rparr>,
           \<lparr>pl_id = 2, pl_name = ''Marinara'', pl_price = 800, pl_is_active = False,
            pl_ingredient_number = 1\<rparr>]), example_db)
   \<and> map p_ingredient_number (pizzas example_db) = [7, 0]"
proof -
  have listed: "map to_pizza_list (show_pizzas example_db alice)
            = [\<lparr>pl_id = 1, pl_name = ''Margherita'', pl_price = 900, pl_is_active = True,
                pl_ingredient_number = 2\<rparr>,
               \<lparr>pl_id = 2, pl_name = ''Marinara'', pl_price = 800, pl_is_active = False,
                pl_ingredient_number = 1\<rparr>]"
    by (simp add: show_pizzas_def get_pizza_list_def pizza_ingredients_def
        to_pizza_list_def example_db_def)
  note claim = show_pizzas_ingredient_number
         [of example_db alice "\<lambda>p. 0" example_utils "Some ''access:alice@example.com''"]
  from claim current_user_alice
  obtain l where "app example_utils (Some ''access:alice@example.com'') ListPizzas example_db
                    = (Inr (PizzaListOut l), example_db)"
    by blast
  moreover from this have "l = map to_pizza_list (show_pizzas example_db alice)"
    by (simp add: current_user_alice)
  ultimately have a: "app example_utils (Some ''access:alice@example.com'') ListPizzas example_db
     = (Inr (PizzaListOut
          [\<lparr>pl_id = 1, pl_name = ''Margherita'', pl_price = 900, pl_is_active = True,
            pl_ingredient_number = 2\<rparr>,
           \<lparr>pl_id = 2, pl_name = ''Marinara'', pl_price = 800, pl_is_active = False,
            pl_ingredient_number = 1\<rparr>]), example_db)"
    using listed by simp
  have b: "map p_ingredient_number (pizzas example_db) = [7, 0]"
    by (simp add: example_db_def)
  from a b show ?thesis by simp
qed

text \<open>
  Claim C10. The route of a single pizza does not resolve the identity: whatever token
  is presented, and with none, it returns the detail of the pizza when a pizza of that
  id exists and the error 404 when none exists, never \<open>Unauthorized\<close>.
\<close>

theorem show_pizza_details_no_auth:
  "(pizza_id \<in> p_id ` set (pizzas d) \<longrightarrow>
      (\<exists>p. p \<in> set (pizzas d) \<and> p_id p = pizza_id
         \<and> app ut token (GetPizza pizza_id) d
             = (Inr (PizzaDetailsOut (to_pizza_details d p)), d)))
   \<and> (pizza_id \<notin> p_id ` set (pizzas d) \<longrightarrow>
        app ut token (GetPizza pizza_id) d = (Inl (HTTPException 404 ''Pizza not found''), d))
   \<and> fst (app ut token (GetPizza pizza_id) d) \<noteq> Inl Unauthorized
   \<and> app ut token (GetPizza pizza_id) d = app ut None (GetPizza pizza_id) d"
proof (cases "get_pizza d pizza_id")
  case None
  then have "pizza_id \<notin> p_id ` set (pizzas d)"
    by (auto simp: get_pizza_def find_None_conv)
  with None show ?thesis by (simp add: show_pizza_details_def)
next
  case (Some p)
  then have "p \<in> set (pizzas d)" "p_id p = pizza_id"
    using find_SomeD [of "\<lambda>p. p_id p = pizza_id" "pizzas d" p] by (simp_all add: get_pizza_def)
  with Some show ?thesis by (auto simp: show_pizza_details_def)
qed

theorem show_pizza_details_no_auth_witness:
  "app example_utils None (GetPizza 2) example_db
     = (Inr (PizzaDetailsOut \<lparr>pd_id = 2, pd_name = ''Marinara'', pd_price = 800,
                              pd_is_active = False,
                              pd_ingredients = [\<lparr>a_pizza_id = 2, a_ingredient_id = 1\<rparr>]\<rparr>),
        example_db)
   \<and> app example_utils (Some ''garbage'') (GetPizza 9) example_db
     = (Inl (HTTPException 404 ''Pizza not found''), example_db)"
proof -
  have there: "(2::int) \<in> p_id ` set (pizzas example_db)"
    by (simp add: example_db_def)
  have missing: "(9::int) \<notin> p_id ` set (pizzas example_db)"
    by (simp add: example_db_def)
  from show_pizza_details_no_auth [of 2 example_db example_utils None] there
  obtain p where p: "p \<in> set (pizzas example_db)" "p_id p = 2"
    and r: "app example_utils None (GetPizza 2) example_db
              = (Inr (PizzaDetailsOut (to_pizza_details example_db p)), example_db)"
    by blast
  from p have "p = \<lparr>p_id = 2, p_name = ''Marinara'', p_price = 800, p_is_active = False,
                    p_ingredient_number = 0\<rparr>"
    by (auto simp: example_db_def)
  with r have a: "app example_utils None (GetPizza 2) example_db
     = (Inr (PizzaDetailsOut \<lparr>pd_id = 2, pd_name = ''Marinara'', pd_price = 800,
                              pd_is_active = False,
                              pd_ingredients = [\<lparr>a_pizza_id = 2, a_ingredient_id = 1\<rparr>]\<rparr>),
        example_db)"
    by (simp add: to_pizza_details_def pizza_ingredients_def example_db_def)
  from show_pizza_details_no_auth [of 9 example_db example_utils "Some ''garbage''"] missing
  have b: "app example_utils (Some ''garbage'') (GetPizza 9) example_db
     = (Inl (HTTPException 404 ''Pizza not found''), example_db)"
    by blast
  from a b show ?thesis by simp
qed

section \<open>Lookups by key\<close>

lemma get_pizza_None: "(get_pizza d k = None) = (k \<notin> p_id ` set (pizzas d))"
  by (auto simp: get_pizza_def find_None_conv)

lemma get_ingredient_None: "(get_ingredient d k = None) = (k \<notin> i_id ` set (ingredients d))"
  by (auto simp: get_ingredient_def find_None_conv)

lemma get_pizza_ing_association_None:
  "(get_pizza_ing_association d pid iid = None)
     = (\<not> (\<exists>a\<in>set (associations d). a_pizza_id a = pid \<and> a_ingredient_id a = iid))"
  by (simp add: get_pizza_ing_association_def find_None_conv)

lemma get_pizza_ing_association_Some:
  "get_pizza_ing_association d pid iid = Some a \<Longrightarrow>
     a_pizza_id a = pid \<and> a_ingredient_id a = iid \<and> a \<in> set (associations d)"
  using find_SomeD [of "\<lambda>a. a_pizza_id a = pid \<and> a_ingredient_id a = iid" "associations d" a]
  by (simp add: get_pizza_ing_association_def)

lemma get_ingredient_Some:
  "get_ingredient d k = Some i \<Longrightarrow> i_id i = k \<and> i \<in> set (ingredients d)"
  using find_SomeD [of "\<lambda>i. i_id i = k" "ingredients d" i] by (simp add: get_ingredient_def)

lemma get_pizza_Some:
  "get_pizza d k = Some p \<Longrightarrow> p_id p = k \<and> p \<in> set (pizzas d)"
  using find_SomeD [of "\<lambda>p. p_id p = k" "pizzas d" p] by (simp add: get_pizza_def)

section \<open>Associations between pizzas and ingredients\<close>

text \<open>
  Claim C2. Adding an association fails with the error 404 when the pizza does not
  exist or the ingredient does not exist, and with the error 400 when both exist and
  the pair is already associated. Otherwise it stores and returns the association;
  adding the same pair again then fails with the error 400, and the store holds
  exactly one row for the pair.
\<close>

theorem add_ingredient_to_pizza_outcomes:
  "(pizza_id \<notin> p_id ` set (pizzas d) \<longrightarrow>
      add_ingredient_to_pizza pizza_id ingredient_id d user
        = (Inl (HTTPException 404 ''Pizza not found''), d))
   \<and> (pizza_id \<in> p_id ` set (pizzas d) \<and> ingredient_id \<notin> i_id ` set (ingredients d) \<longrightarrow>
        add_ingredient_to_pizza pizza_id ingredient_id d user
          = (Inl (HTTPException 404 ''Ingredient not found''), d))
   \<and> (pizza_id \<in> p_id ` set (pizzas d) \<and> ingredient_id \<in> i_id ` set (ingredients d)
        \<and> (\<exists>a\<in>set (associations d). a_pizza_id a = pizza_id \<and> a_ingredient_id a = ingredient_id)
      \<longrightarrow> add_ingredient_to_pizza pizza_id ingredient_id d user
            = (Inl (HTTPException 400 ''Association already exists''), d))
   \<and> (pizza_id \<in> p_id ` set (pizzas d) \<and> ingredient_id \<in> i_id ` set (ingredients d)
        \<and> \<not> (\<exists>a\<in>set (associations d). a_pizza_id a = pizza_id \<and> a_ingredient_id a = ingredient_id)
      \<longrightarrow> (let new = \<lparr>a_pizza_id = pizza_id, a_ingredient_id = ingredient_id\<rparr>;
                d' = d\<lparr>associations := associations d @ [new]\<rparr>
            in add_ingredient_to_pizza pizza_id ingredient_id d user = (Inr new, d')
               \<and> add_ingredient_to_pizza pizza_id ingredient_id d' user'
                   = (Inl (HTTPException 400 ''Association already exists''), d')
               \<and> length (filter (\<lambda>a. a_pizza_id a = pizza_id \<and> a_ingredient_id a = ingredient_id)
                           (associations d')) = 1))"
proof (intro conjI impI)
  assume "pizza_id \<notin> p_id ` set (pizzas d)"
  then show "add_ingredient_to_pizza pizza_id ingredient_id d user
               = (Inl (HTTPException 404 ''Pizza not found''), d)"
    by (simp add: add_ingredient_to_pizza_def get_pizza_None)
next
  assume "pizza_id \<in> p_id ` set (pizzas d) \<and> ingredient_id \<notin> i_id ` set (ingredients d)"
  then show "add_ingredient_to_pizza pizza_id ingredient_id d user
               = (Inl (HTTPException 404 ''Ingredient not found''), d)"
    by (simp add: add_ingredient_to_pizza_def get_pizza_None get_ingredient_None)
next
  assume h: "pizza_id \<in> p_id ` set (pizzas d) \<and> ingredient_id \<in> i_id ` set (ingredients d)
        \<and> (\<exists>a\<in>set (associations d). a_pizza_id a = pizza_id \<and> a_ingredient_id a = ingredient_id)"
  then have "get_pizza_ing_association d pizza_id ingredient_id \<noteq> None"
    by (simp add: get_pizza_ing_association_None)
  with h show "add_ingredient_to_pizza pizza_id ingredient_id d user
               = (Inl (HTTPException 400 ''Association already exists''), d)"
    by (auto simp: add_ingredient_to_pizza_def get_pizza_None get_ingredient_None)
next
  assume h: "pizza_id \<in> p_id ` set (pizzas d) \<and> ingredient_id \<in> i_id ` set (ingredients d)
        \<and> \<not> (\<exists>a\<in>set (associations d). a_pizza_id a = pizza_id \<and> a_ingredient_id a = ingredient_id)"
  define new where "new = \<lparr>a_pizza_id = pizza_id, a_ingredient_id = ingredient_id\<rparr>"
  define d' where "d' = d\<lparr>associations := associations d @ [new]\<rparr>"
  from h have none: "get_pizza_ing_association d pizza_id ingredient_id = None"
    by (simp add: get_pizza_ing_association_None)
  have first: "add_ingredient_to_pizza pizza_id ingredient_id d user = (Inr new, d')"
    using h none
    by (simp add: add_ingredient_to_pizza_def get_pizza_None get_ingredient_None
        add_pizza_ing_association_def new_def d'_def Let_def)
  have tables: "pizzas d' = pizzas d" "ingredients d' = ingredients d"
    by (simp_all add: d'_def)
  have "get_pizza_ing_association d' pizza_id ingredient_id \<noteq> None"
    by (simp add: get_pizza_ing_association_None d'_def new_def)
  then have second: "add_ingredient_to_pizza pizza_id ingredient_id d' user'
                       = (Inl (HTTPException 400 ''Association already exists''), d')"
    using h by (auto simp: add_ingredient_to_pizza_def get_pizza_None get_ingredient_None tables)
  have "filter (\<lambda>a. a_pizza_id a = pizza_id \<and> a_ingredient_id a = ingredient_id)
          (associations d) = []"
    using h by (simp add: filter_empty_conv)
  then have once: "length (filter (\<lambda>a. a_pizza_id a = pizza_id \<and> a_ingredient_id a = ingredient_id)
                     (associations d')) = 1"
    by (simp add: d'_def new_def)
  from first second once
  show "let new = \<lparr>a_pizza_id = pizza_id, a_ingredient_id = ingredient_id\<rparr>;
            d' = d\<lparr>associations := associations d @ [new]\<rparr>
        in add_ingredient_to_pizza pizza_id ingredient_id d user = (Inr new, d')
           \<and> add_ingredient_to_pizza pizza_id ingredient_id d' user'
               = (Inl (HTTPException 400 ''Association already exists''), d')
           \<and> length (filter (\<lambda>a. a_pizza_id a = pizza_id \<and> a_ingredient_id a = ingredient_id)
                       (associations d')) = 1"
    by (simp add: new_def d'_def Let_def)
qed

theorem add_ingredient_to_pizza_outcomes_witness:
  "add_ingredient_to_pizza 9 1 example_db alice
     = (Inl (HTTPException 404 ''Pizza not found''), example_db)
   \<and> add_ingredient_to_pizza 1 9 example_db alice
     = (Inl (HTTPException 404 ''Ingredient not found''), example_db)
   \<and> add_ingredient_to_pizza 1 2 example_db alice
     = (Inl (HTTPException 400 ''Association already exists''), example_db)
   \<and> add_ingredient_to_pizza 2 3 example_db alice
     = (Inr \<lparr>a_pizza_id = 2, a_ingredient_id = 3\<rparr>,
        example_db\<lparr>associations :=
          associations example_db @ [\<lparr>a_pizza_id = 2, a_ingredient_id = 3\<rparr>]\<rparr>)
   \<and> length (filter (\<lambda>a. a_pizza_id a = 2 \<and> a_ingredient_id a = 3)
        (associations
          (snd (add_ingredient_to_pizza 2 3
                 (snd (add_ingredient_to_pizza 2 3 example_db alice)) alice)))) = 1"
proof -
  have no_pizza: "(9::int) \<notin> p_id ` set (pizzas example_db)"
    by (simp add: example_db_def)
  have no_ingredient: "(1::int) \<in> p_id ` set (pizzas example_db)
                       \<and> (9::int) \<notin> i_id ` set (ingredients example_db)"
    by (simp add: example_db_def)
  have duplicate: "(1::int) \<in> p_id ` set (pizzas example_db)
                   \<and> (2::int) \<in> i_id ` set (ingredients example_db)
                   \<and> (\<exists>a\<in>set (associations example_db).
                         a_pizza_id a = 1 \<and> a_ingredient_id a = 2)"
    by (simp add: example_db_def)
  have fresh: "(2::int) \<in> p_id ` set (pizzas example_db)
               \<and> (3::int) \<in> i_id ` set (ingredients example_db)
               \<and> \<not> (\<exists>a\<in>set (associations example_db).
                         a_pizza_id a = 2 \<and> a_ingredient_id a = 3)"
    by (simp add: example_db_def)
  have a: "add_ingredient_to_pizza 9 1 example_db alice
             = (Inl (HTTPException 404 ''Pizza not found''), example_db)"
    using add_ingredient_to_pizza_outcomes [of 9 example_db 1 alice alice] no_pizza by blast
  have b: "add_ingredient_to_pizza 1 9 example_db alice
             = (Inl (HTTPException 404 ''Ingredient not found''), example_db)"
    using add_ingredient_to_pizza_outcomes [of 1 example_db 9 alice alice] no_ingredient
    by blast
  have c: "add_ingredient_to_pizza 1 2 example_db alice
             = (Inl (HTTPException 400 ''Association already exists''), example_db)"
    using add_ingredient_to_pizza_outcomes [of 1 example_db 2 alice alice] duplicate by blast
  have d: "let new = \<lparr>a_pizza_id = 2, a_ingredient_id = 3\<rparr>;
               d' = example_db\<lparr>associations := associations example_db @ [new]\<rparr>
           in add_ingredient_to_pizza 2 3 example_db alice = (Inr new, d')
              \<and> add_ingredient_to_pizza 2 3 d' alice
                  = (Inl (HTTPException 400 ''Association already exists''), d')
              \<and> length (filter (\<lambda>a. a_pizza_id a = 2 \<and> a_ingredient_id a = 3)
                          (associations d')) = 1"
    using add_ingredient_to_pizza_outcomes [of 2 example_db 3 alice alice] fresh by blast
  from a b c d show ?thesis by (simp add: Let_def)
qed

section \<open>Deleting an ingredient\<close>

lemma delete_ingredient_missing:
  assumes "ingredient_id \<notin> i_id ` set (ingredients d)"
  shows "delete_ingredient ingredient_id d user
           = (Inl (HTTPException 404 ''Ingredient not found.''), d)"
  using assms by (simp add: delete_ingredient_def get_ingredient_None [symmetric])

lemma delete_ingredient_blocked:
  assumes "get_ingredient d ingredient_id = Some i"
    and "\<exists>a\<in>set (associations d). a_ingredient_id a = ingredient_id"
  shows "delete_ingredient ingredient_id d user
           = (Inl (HTTPException 400 ''Cannot delete an ingredient in an active pizza''), d)"
proof -
  from assms(1) have "i_id i = ingredient_id"
    using get_ingredient_Some [of d ingredient_id i] by blast
  with assms(2) have "list_ex (\<lambda>a. a_ingredient_id a = i_id i) (associations d)"
    by (simp add: list_ex_iff)
  with assms(1) show ?thesis
    by (simp add: delete_ingredient_def CRUD_delete_ingredient_def)
qed

lemma delete_ingredient_done:
  assumes "get_ingredient d ingredient_id = Some i"
    and "\<not> (\<exists>a\<in>set (associations d). a_ingredient_id a = ingredient_id)"
  shows "delete_ingredient ingredient_id d user
           = (Inr \<lparr>m_status = ''completed'',
                   m_detail = ''Ingredient '' @ i_name i @ '' with id ''
                              @ str_int ingredient_id @ '' deleted''\<rparr>,
              d\<lparr>ingredients := filter (\<lambda>j. i_id j \<noteq> ingredient_id) (ingredients d)\<rparr>)"
proof -
  from assms(1) have id: "i_id i = ingredient_id"
    using get_ingredient_Some [of d ingredient_id i] by blast
  with assms(2) have "\<not> list_ex (\<lambda>a. a_ingredient_id a = i_id i) (associations d)"
    by (simp add: list_ex_iff)
  with assms(1) id show ?thesis
    by (simp add: delete_ingredient_def CRUD_delete_ingredient_def)
qed

lemma get_ingredient_deleted:
  "get_ingredient (d\<lparr>ingredients := filter (\<lambda>j. i_id j \<noteq> k) (ingredients d)\<rparr>) k = None"
  by (auto simp: get_ingredient_None)

text \<open>
  Claim C3. Deleting an ingredient fails with the error 404 when the ingredient does
  not exist. When it exists and no association references it, it is deleted, the
  confirmation message names its name and its id, a later lookup finds nothing and a
  later delete fails with the error 404. When it exists and an association references
  it, the delete fails with the error 400 and the ingredient is still in the store.
\<close>

theorem delete_ingredient_outcomes:
  "(ingredient_id \<notin> i_id ` set (ingredients d) \<longrightarrow>
      delete_ingredient ingredient_id d user
        = (Inl (HTTPException 404 ''Ingredient not found.''), d))
   \<and> (\<forall>i. get_ingredient d ingredient_id = Some i
           \<and> \<not> (\<exists>a\<in>set (associations d). a_ingredient_id a = ingredient_id)
        \<longrightarrow> (let d' = d\<lparr>ingredients :=
                          filter (\<lambda>j. i_id j \<noteq> ingredient_id) (ingredients d)\<rparr>
              in delete_ingredient ingredient_id d user
                   = (Inr \<lparr>m_status = ''completed'',
                           m_detail = ''Ingredient '' @ i_name i @ '' with id ''
                                      @ str_int ingredient_id @ '' deleted''\<rparr>, d')
                 \<and> get_ingredient d' ingredient_id = None
                 \<and> delete_ingredient ingredient_id d' user'
                     = (Inl (HTTPException 404 ''Ingredient not found.''), d')))
   \<and> (\<forall>i. get_ingredient d ingredient_id = Some i
           \<and> (\<exists>a\<in>set (associations d). a_ingredient_id a = ingredient_id)
        \<longrightarrow> delete_ingredient ingredient_id d user
              = (Inl (HTTPException 400 ''Cannot delete an ingredient in an active pizza''), d)
            \<and> get_ingredient (snd (delete_ingredient ingredient_id d user)) ingredient_id
                = Some i)"
proof -
  have missing: "ingredient_id \<notin> i_id ` set (ingredients d) \<longrightarrow>
      delete_ingredient ingredient_id d user
        = (Inl (HTTPException 404 ''Ingredient not found.''), d)"
    by (simp add: delete_ingredient_missing)
  have removed: "\<forall>i. get_ingredient d ingredient_id = Some i
           \<and> \<not> (\<exists>a\<in>set (associations d). a_ingredient_id a = ingredient_id)
        \<longrightarrow> (let d' = d\<lparr>ingredients :=
                          filter (\<lambda>j. i_id j \<noteq> ingredient_id) (ingredients d)\<rparr>
              in delete_ingredient ingredient_id d user
                   = (Inr \<lparr>m_status = ''completed'',
                           m_detail = ''Ingredient '' @ i_name i @ '' with id ''
                                      @ str_int ingredient_id @ '' deleted''\<rparr>, d')
                 \<and> get_ingredient d' ingredient_id = None
                 \<and> delete_ingredient ingredient_id d' user'
                     = (Inl (HTTPException 404 ''Ingredient not found.''), d'))"
    using delete_ingredient_done [of d ingredient_id _ user]
    by (simp add: Let_def get_ingredient_deleted delete_ingredient_def)
  have blocked: "\<forall>i. get_ingredient d ingredient_id = Some i
           \<and> (\<exists>a\<in>set (associations d). a_ingredient_id a = ingredient_id)
        \<longrightarrow> delete_ingredient ingredient_id d user
              = (Inl (HTTPException 400 ''Cannot delete an ingredient in an active pizza''), d)
            \<and> get_ingredient (snd (delete_ingredient ingredient_id d user)) ingredient_id
                = Some i"
    using delete_ingredient_blocked [of d ingredient_id _ user] by simp
  from missing removed blocked show ?thesis by (intro conjI)
qed

theorem delete_ingredient_outcomes_witness:
  "delete_ingredient 9 example_db alice
     = (Inl (HTTPException 404 ''Ingredient not found.''), example_db)
   \<and> delete_ingredient 3 example_db alice
     = (Inr \<lparr>m_status = ''completed'', m_detail = ''Ingredient Garlic with id 3 deleted''\<rparr>,
        example_db\<lparr>ingredients := [\<lparr>i_id = 1, i_name = ''Tomato'', i_category = ''Sauce''\<rparr>,
                                    \<lparr>i_id = 2, i_name = ''Basil'', i_category = ''Herb''\<rparr>]\<rparr>)
   \<and> delete_ingredient 1 example_db alice
     = (Inl (HTTPException 400 ''Cannot delete an ingredient in an active pizza''), example_db)"
proof -
  note claim = delete_ingredient_outcomes
  have missing: "(9::int) \<notin> i_id ` set (ingredients example_db)"
    by (simp add: example_db_def)
  have garlic: "get_ingredient example_db 3
                  = Some \<lparr>i_id = 3, i_name = ''Garlic'', i_category = ''Herb''\<rparr>
                \<and> \<not> (\<exists>a\<in>set (associations example_db). a_ingredient_id a = 3)"
    by (simp add: get_ingredient_def example_db_def)
  have tomato: "get_ingredient example_db 1
                  = Some \<lparr>i_id = 1, i_name = ''Tomato'', i_category = ''Sauce''\<rparr>
                \<and> (\<exists>a\<in>set (associations example_db). a_ingredient_id a = 1)"
    by (simp add: get_ingredient_def example_db_def)
  have a: "delete_ingredient 9 example_db alice
             = (Inl (HTTPException 404 ''Ingredient not found.''), example_db)"
    using claim [of 9 example_db alice alice] missing by blast
  have "let d' = example_db\<lparr>ingredients :=
                   filter (\<lambda>j. i_id j \<noteq> 3) (ingredients example_db)\<rparr>
        in delete_ingredient 3 example_db alice
             = (Inr \<lparr>m_status = ''completed'',
                     m_detail = ''Ingredient ''
                       @ i_name \<lparr>i_id = 3, i_name = ''Garlic'', i_category = ''Herb''\<rparr>
                       @ '' with id '' @ str_int 3 @ '' deleted''\<rparr>, d')
           \<and> get_ingredient d' 3 = None
           \<and> delete_ingredient 3 d' alice
               = (Inl (HTTPException 404 ''Ingredient not found.''), d')"
    using claim [of 3 example_db alice alice] garlic by blast
  then have b: "delete_ingredient 3 example_db alice
     = (Inr \<lparr>m_status = ''completed'', m_detail = ''Ingredient Garlic with id 3 deleted''\<rparr>,
        example_db\<lparr>ingredients := [\<lparr>i_id = 1, i_name = ''Tomato'', i_category = ''Sauce''\<rparr>,
                                    \<lparr>i_id = 2, i_name = ''Basil'', i_category = ''Herb''\<rparr>]\<rparr>)"
    by (simp add: Let_def example_db_def str_int_def str_nat.simps digit_char_def)
  have c: "delete_ingredient 1 example_db alice
     = (Inl (HTTPException 400 ''Cannot delete an ingredient in an active pizza''), example_db)"
    using claim [of 1 example_db alice alice] tomato by blast
  from a b c show ?thesis by simp
qed

section \<open>Updating a pizza\<close>

lemma find_map_replaced:
  assumes "find (\<lambda>q. p_id q = k) xs = Some p" and "p_id p' = k"
  shows "find (\<lambda>q. p_id q = k) (map (\<lambda>q. if p_id q = k then p' else q) xs) = Some p'"
  using assms by (induction xs) (auto split: if_splits)

lemma find_map_others:
  assumes "k' \<noteq> k" and "p_id p' = k"
  shows "find (\<lambda>q. p_id q = k') (map (\<lambda>q. if p_id q = k then p' else q) xs)
           = find (\<lambda>q. p_id q = k') xs"
  using assms by (induction xs) auto

lemma change_pizza_missing:
  assumes "pizza_id \<notin> p_id ` set (pizzas d)"
  shows "change_pizza pizza_id name price is_active d user
           = (Inl (HTTPException 404 ''Pizza not found.''), d)"
  using assms by (simp add: change_pizza_def get_pizza_None [symmetric])

lemma change_pizza_found:
  assumes "get_pizza d pizza_id = Some p"
  shows "change_pizza pizza_id name price is_active d user
           = (Inr (p\<lparr>p_name := (case name of None \<Rightarrow> p_name p | Some n \<Rightarrow> n),
                     p_price := (case price of None \<Rightarrow> p_price p | Some c \<Rightarrow> c),
                     p_is_active := (case is_active of None \<Rightarrow> p_is_active p | Some b \<Rightarrow> b)\<rparr>),
              d\<lparr>pizzas :=
                  map (\<lambda>q. if p_id q = pizza_id
                            then p\<lparr>p_name := (case name of None \<Rightarrow> p_name p | Some n \<Rightarrow> n),
                                   p_price := (case price of None \<Rightarrow> p_price p | Some c \<Rightarrow> c),
                                   p_is_active :=
                                     (case is_active of None \<Rightarrow> p_is_active p | Some b \<Rightarrow> b)\<rparr>
                            else q) (pizzas d)\<rparr>)"
proof -
  from assms have "p_id p = pizza_id"
    using get_pizza_Some [of d pizza_id p] by blast
  with assms show ?thesis
    by (simp add: change_pizza_def CRUD_change_pizza_def Let_def)
qed

text \<open>
  Claim C5. A patch of a pizza that does not exist fails with the error 404. A patch of
  an existing pizza sets exactly the fields that are supplied: a field given as \<open>None\<close>
  keeps its value, so a patch that supplies only the price leaves the name and the
  active flag as they were. A later lookup returns the updated pizza, and every other
  pizza and every other table is unchanged.
\<close>

theorem change_pizza_partial_update:
  "(pizza_id \<notin> p_id ` set (pizzas d) \<longrightarrow>
      change_pizza pizza_id name price is_active d user
        = (Inl (HTTPException 404 ''Pizza not found.''), d))
   \<and> (\<forall>p. get_pizza d pizza_id = Some p \<longrightarrow>
         (\<exists>p' d'. change_pizza pizza_id name price is_active d user = (Inr p', d')
            \<and> p_id p' = pizza_id
            \<and> p_name p' = (case name of None \<Rightarrow> p_name p | Some n \<Rightarrow> n)
            \<and> p_price p' = (case price of None \<Rightarrow> p_price p | Some c \<Rightarrow> c)
            \<and> p_is_active p' = (case is_active of None \<Rightarrow> p_is_active p | Some b \<Rightarrow> b)
            \<and> p_ingredient_number p' = p_ingredient_number p
            \<and> get_pizza d' pizza_id = Some p'
            \<and> (\<forall>other. other \<noteq> pizza_id \<longrightarrow> get_pizza d' other = get_pizza d other)
            \<and> users d' = users d \<and> ingredients d' = ingredients d
            \<and> associations d' = associations d))"
proof (intro conjI allI impI)
  assume "pizza_id \<notin> p_id ` set (pizzas d)"
  then show "change_pizza pizza_id name price is_active d user
               = (Inl (HTTPException 404 ''Pizza not found.''), d)"
    by (rule change_pizza_missing)
next
  fix p
  assume found: "get_pizza d pizza_id = Some p"
  define p' where "p' = p\<lparr>p_name := (case name of None \<Rightarrow> p_name p | Some n \<Rightarrow> n),
                         p_price := (case price of None \<Rightarrow> p_price p | Some c \<Rightarrow> c),
                         p_is_active :=
                           (case is_active of None \<Rightarrow> p_is_active p | Some b \<Rightarrow> b)\<rparr>"
  define d' where "d' = d\<lparr>pizzas := map (\<lambda>q. if p_id q = pizza_id then p' else q) (pizzas d)\<rparr>"
  from found have id: "p_id p = pizza_id"
    using get_pizza_Some [of d pizza_id p] by blast
  then have id': "p_id p' = pizza_id"
    by (simp add: p'_def)
  have result: "change_pizza pizza_id name price is_active d user = (Inr p', d')"
    using change_pizza_found [OF found] by (simp add: p'_def d'_def)
  have fields: "p_name p' = (case name of None \<Rightarrow> p_name p | Some n \<Rightarrow> n)"
    "p_price p' = (case price of None \<Rightarrow> p_price p | Some c \<Rightarrow> c)"
    "p_is_active p' = (case is_active of None \<Rightarrow> p_is_active p | Some b \<Rightarrow> b)"
    "p_ingredient_number p' = p_ingredient_number p"
    by (simp_all add: p'_def)
  have round_trip: "get_pizza d' pizza_id = Some p'"
    using found id' by (simp add: get_pizza_def d'_def find_map_replaced)
  have others: "\<forall>other. other \<noteq> pizza_id \<longrightarrow> get_pizza d' other = get_pizza d other"
    using id' by (simp add: get_pizza_def d'_def find_map_others)
  have frame: "users d' = users d" "ingredients d' = ingredients d"
    "associations d' = associations d"
    by (simp_all add: d'_def)
  from result id' fields round_trip others frame
  show "\<exists>p' d'. change_pizza pizza_id name price is_active d user = (Inr p', d')
            \<and> p_id p' = pizza_id
            \<and> p_name p' = (case name of None \<Rightarrow> p_name p | Some n \<Rightarrow> n)
            \<and> p_price p' = (case price of None \<Rightarrow> p_price p | Some c \<Rightarrow> c)
            \<and> p_is_active p' = (case is_active of None \<Rightarrow> p_is_active p | Some b \<Rightarrow> b)
            \<and> p_ingredient_number p' = p_ingredient_number p
            \<and> get_pizza d' pizza_id = Some p'
            \<and> (\<forall>other. other \<noteq> pizza_id \<longrightarrow> get_pizza d' other = get_pizza d other)
            \<and> users d' = users d \<and> ingredients d' = ingredients d
            \<and> associations d' = associations d"
    by blast
qed

theorem change_pizza_partial_update_witness:
  "change_pizza 1 None (Some 950) None example_db alice
     = (Inr \<lparr>p_id = 1, p_name = ''Margherita'', p_price = 950, p_is_active = True,
             p_ingredient_number = 7\<rparr>,
        example_db\<lparr>pizzas :=
          [\<lparr>p_id = 1, p_name = ''Margherita'', p_price = 950, p_is_active = True,
            p_ingredient_number = 7\<rparr>,
           \<lparr>p_id = 2, p_name = ''Marinara'', p_price = 800, p_is_active = False,
            p_ingredient_number = 0\<rparr>]\<rparr>)
   \<and> change_pizza 9 None (Some 950) None example_db alice
     = (Inl (HTTPException 404 ''Pizza not found.''), example_db)"
proof -
  note claim = change_pizza_partial_update
  have margherita: "get_pizza example_db 1
      = Some \<lparr>p_id = 1, p_name = ''Margherita'', p_price = 900, p_is_active = True,
              p_ingredient_number = 7\<rparr>"
    by (simp add: get_pizza_def example_db_def)
  have missing: "(9::int) \<notin> p_id ` set (pizzas example_db)"
    by (simp add: example_db_def)
  from claim [of 1 example_db None "Some 950" None alice] margherita
  obtain p' d' where r: "change_pizza 1 None (Some 950) None example_db alice = (Inr p', d')"
    and f: "p_name p' = ''Margherita''" "p_price p' = 950" "p_is_active p' = True"
    by fastforce
  have computed: "change_pizza 1 None (Some 950) None example_db alice
     = (Inr \<lparr>p_id = 1, p_name = ''Margherita'', p_price = 950, p_is_active = True,
             p_ingredient_number = 7\<rparr>,
        example_db\<lparr>pizzas :=
          [\<lparr>p_id = 1, p_name = ''Margherita'', p_price = 950, p_is_active = True,
            p_ingredient_number = 7\<rparr>,
           \<lparr>p_id = 2, p_name = ''Marinara'', p_price = 800, p_is_active = False,
            p_ingredient_number = 0\<rparr>]\<rparr>)"
    by (simp add: change_pizza_def CRUD_change_pizza_def get_pizza_def example_db_def Let_def)
  have b: "change_pizza 9 None (Some 950) None example_db alice
             = (Inl (HTTPException 404 ''Pizza not found.''), example_db)"
    using claim [of 9 example_db None "Some 950" None alice] missing by blast
  from r f computed b show ?thesis by simp
qed

section \<open>Removing an association\<close>

lemma remove_ingredient_to_pizza_missing:
  assumes "\<not> (\<exists>a\<in>set (associations d). a_pizza_id a = pizza_id \<and> a_ingredient_id a = ingredient_id)"
  shows "remove_ingredient_to_pizza pizza_id ingredient_id d user
           = (Inl (HTTPException 404 ''Association not found''), d)"
proof -
  from assms have "get_pizza_ing_association d pizza_id ingredient_id = None"
    by (simp add: get_pizza_ing_association_None)
  then show ?thesis by (simp add: remove_ingredient_to_pizza_def)
qed

lemma remove_ingredient_to_pizza_found:
  assumes "\<exists>a\<in>set (associations d). a_pizza_id a = pizza_id \<and> a_ingredient_id a = ingredient_id"
  shows "remove_ingredient_to_pizza pizza_id ingredient_id d user
           = (Inr \<lparr>m_status = ''completed'',
                   m_detail = ''Ingredient '' @ str_int ingredient_id
                              @ ''removed from pizza '' @ str_int pizza_id\<rparr>,
              d\<lparr>associations :=
                  filter (\<lambda>b. \<not> (a_pizza_id b = pizza_id \<and> a_ingredient_id b = ingredient_id))
                    (associations d)\<rparr>)"
proof -
  from assms obtain a where a: "get_pizza_ing_association d pizza_id ingredient_id = Some a"
    using get_pizza_ing_association_None [of d pizza_id ingredient_id] by auto
  then have "a_pizza_id a = pizza_id" "a_ingredient_id a = ingredient_id"
    using get_pizza_ing_association_Some [of d pizza_id ingredient_id a] by simp_all
  with a show ?thesis
    by (simp add: remove_ingredient_to_pizza_def delete_pizza_ing_association_def)
qed

text \<open>
  Claim C8. Removing an association that exists deletes it and returns a confirmation
  message that names the ingredient id and the pizza id; afterwards the pair is not
  associated. Removing an association that does not exist fails with the error 404 and
  leaves the store unchanged.
\<close>

theorem remove_ingredient_to_pizza_outcomes:
  "((\<exists>a\<in>set (associations d). a_pizza_id a = pizza_id \<and> a_ingredient_id a = ingredient_id)
      \<longrightarrow> (let d' = d\<lparr>associations :=
                        filter (\<lambda>b. \<not> (a_pizza_id b = pizza_id
                                         \<and> a_ingredient_id b = ingredient_id))
                          (associations d)\<rparr>
            in remove_ingredient_to_pizza pizza_id ingredient_id d user
                 = (Inr \<lparr>m_status = ''completed'',
                         m_detail = ''Ingredient '' @ str_int ingredient_id
                                    @ ''removed from pizza '' @ str_int pizza_id\<rparr>, d')
               \<and> get_pizza_ing_association d' pizza_id ingredient_id = None
               \<and> remove_ingredient_to_pizza pizza_id ingredient_id d' user'
                   = (Inl (HTTPException 404 ''Association not found''), d')))
   \<and> (\<not> (\<exists>a\<in>set (associations d). a_pizza_id a = pizza_id \<and> a_ingredient_id a = ingredient_id)
      \<longrightarrow> remove_ingredient_to_pizza pizza_id ingredient_id d user
            = (Inl (HTTPException 404 ''Association not found''), d))"
proof -
  have gone: "get_pizza_ing_association
                (d\<lparr>associations :=
                     filter (\<lambda>b. \<not> (a_pizza_id b = pizza_id \<and> a_ingredient_id b = ingredient_id))
                       (associations d)\<rparr>) pizza_id ingredient_id = None"
    by (simp add: get_pizza_ing_association_None)
  then have again: "remove_ingredient_to_pizza pizza_id ingredient_id
                (d\<lparr>associations :=
                     filter (\<lambda>b. \<not> (a_pizza_id b = pizza_id \<and> a_ingredient_id b = ingredient_id))
                       (associations d)\<rparr>) user'
              = (Inl (HTTPException 404 ''Association not found''),
                 d\<lparr>associations :=
                     filter (\<lambda>b. \<not> (a_pizza_id b = pizza_id \<and> a_ingredient_id b = ingredient_id))
                       (associations d)\<rparr>)"
    by (simp add: remove_ingredient_to_pizza_def)
  show ?thesis
    using gone again remove_ingredient_to_pizza_found [of d pizza_id ingredient_id user]
      remove_ingredient_to_pizza_missing [of d pizza_id ingredient_id user]
    by (simp add: Let_def)
qed

theorem remove_ingredient_to_pizza_outcomes_witness:
  "remove_ingredient_to_pizza 1 2 example_db alice
     = (Inr \<lparr>m_status = ''completed'', m_detail = ''Ingredient 2removed from pizza 1''\<rparr>,
        example_db\<lparr>associations := [\<lparr>a_pizza_id = 1, a_ingredient_id = 1\<rparr>,
                                     \<lparr>a_pizza_id = 2, a_ingredient_id = 1\<rparr>]\<rparr>)
   \<and> remove_ingredient_to_pizza 2 2 example_db alice
     = (Inl (HTTPException 404 ''Association not found''), example_db)"
proof -
  note claim = remove_ingredient_to_pizza_outcomes
  have there: "\<exists>a\<in>set (associations example_db). a_pizza_id a = 1 \<and> a_ingredient_id a = 2"
    by (simp add: example_db_def)
  have absent: "\<not> (\<exists>a\<in>set (associations example_db). a_pizza_id a = 2 \<and> a_ingredient_id a = 2)"
    by (simp add: example_db_def)
  have "let d' = example_db\<lparr>associations :=
                   filter (\<lambda>b. \<not> (a_pizza_id b = 1 \<and> a_ingredient_id b = 2))
                     (associations example_db)\<rparr>
        in remove_ingredient_to_pizza 1 2 example_db alice
             = (Inr \<lparr>m_status = ''completed'',
                     m_detail = ''Ingredient '' @ str_int 2
                                @ ''removed from pizza '' @ str_int 1\<rparr>, d')
           \<and> get_pizza_ing_association d' 1 2 = None
           \<and> remove_ingredient_to_pizza 1 2 d' alice
               = (Inl (HTTPException 404 ''Association not found''), d')"
    using claim [of example_db 1 2 alice alice] there by blast
  then have a: "remove_ingredient_to_pizza 1 2 example_db alice
     = (Inr \<lparr>m_status = ''completed'', m_detail = ''Ingredient 2removed from pizza 1''\<rparr>,
        example_db\<lparr>associations := [\<lparr>a_pizza_id = 1, a_ingredient_id = 1\<rparr>,
                                     \<lparr>a_pizza_id = 2, a_ingredient_id = 1\<rparr>]\<rparr>)"
    by (simp add: Let_def example_db_def str_int_def str_nat.simps digit_char_def)
  have b: "remove_ingredient_to_pizza 2 2 example_db alice
             = (Inl (HTTPException 404 ''Association not found''), example_db)"
    using claim [of example_db 2 2 alice alice] absent by blast
  from a b show ?thesis by simp
qed

end
